theory Spec2Isabelle
  imports Main "HOL-Library.Word"
begin

section \<open>Strings of the source language\<close>

text \<open>
  The module \<^verbatim>\<open>src/firebase/security.ts\<close> works on JavaScript strings: sequences of
  16-bit code units. \<^verbatim>\<open>s.length\<close> counts code units and a regular expression without
  the \<^verbatim>\<open>u\<close> flag consumes one code unit per character class, so a string is a list of
  16-bit words. \<open>js\<close> embeds an ASCII literal.
\<close>

type_synonym code_unit = "16 word"
type_synonym jsstring = "code_unit list"

definition js :: "string \<Rightarrow> jsstring" where
  "js s = map (\<lambda>c. of_nat (of_char c)) s"

text \<open>\<^verbatim>\<open>String.prototype.includes\<close>: the pattern occurs at some position.\<close>

fun startsWith :: "jsstring \<Rightarrow> jsstring \<Rightarrow> bool" where
  "startsWith s [] = True"
| "startsWith [] (p # ps) = False"
| "startsWith (c # s) (p # ps) = (c = p \<and> startsWith s ps)"

fun includes_js :: "jsstring \<Rightarrow> jsstring \<Rightarrow> bool" where
  "includes_js [] p = startsWith [] p"
| "includes_js (c # s) p = (startsWith (c # s) p \<or> includes_js s p)"

section \<open>Regular expressions\<close>

text \<open>
  \<^verbatim>\<open>RegExp.prototype.test\<close> on a pattern anchored by \<^verbatim>\<open>^\<close> and \<^verbatim>\<open>$\<close> (no flags)
  decides whether the whole string belongs to the language of the pattern. Patterns are
  terms; membership is computed by derivatives.
\<close>

datatype regex =
  Nothing
| Empty
| Class "code_unit \<Rightarrow> bool"
| Alt regex regex
| Seq regex regex
| Star regex

definition OneOrMore :: "regex \<Rightarrow> regex" where
  "OneOrMore r = Seq r (Star r)"

fun nullable :: "regex \<Rightarrow> bool" where
  "nullable Nothing = False"
| "nullable Empty = True"
| "nullable (Class p) = False"
| "nullable (Alt r s) = (nullable r \<or> nullable s)"
| "nullable (Seq r s) = (nullable r \<and> nullable s)"
| "nullable (Star r) = True"

fun deriv :: "code_unit \<Rightarrow> regex \<Rightarrow> regex" where
  "deriv c Nothing = Nothing"
| "deriv c Empty = Nothing"
| "deriv c (Class p) = (if p c then Empty else Nothing)"
| "deriv c (Alt r s) = Alt (deriv c r) (deriv c s)"
| "deriv c (Seq r s) =
     (if nullable r then Alt (Seq (deriv c r) s) (deriv c s) else Seq (deriv c r) s)"
| "deriv c (Star r) = Seq (deriv c r) (Star r)"

fun test :: "regex \<Rightarrow> jsstring \<Rightarrow> bool" where
  "test r [] = nullable r"
| "test r (c # s) = test (deriv c r) s"

text \<open>
  The class escape \<^verbatim>\<open>\s\<close> of ECMAScript: the WhiteSpace and LineTerminator code
  points (TAB, LF, VT, FF, CR, SP, NBSP, U+1680, U+2000 to U+200A, U+2028, U+2029,
  U+202F, U+205F, U+3000, U+FEFF).
\<close>

definition isSpace :: "code_unit \<Rightarrow> bool" where
  "isSpace c =
     (c = 0x9 \<or> c = 0xA \<or> c = 0xB \<or> c = 0xC \<or> c = 0xD \<or> c = 0x20 \<or> c = 0xA0
      \<or> c = 0x1680 \<or> (0x2000 \<le> c \<and> c \<le> 0x200A) \<or> c = 0x2028 \<or> c = 0x2029
      \<or> c = 0x202F \<or> c = 0x205F \<or> c = 0x3000 \<or> c = 0xFEFF)"

text \<open>\<^verbatim>\<open>[^\s@]\<close>, \<^verbatim>\<open>@\<close> and \<^verbatim>\<open>\.\<close>.\<close>

definition notSpaceOrAt :: "code_unit \<Rightarrow> bool" where
  "notSpaceOrAt c = (\<not> isSpace c \<and> c \<noteq> 0x40)"

definition lit :: "code_unit \<Rightarrow> regex" where
  "lit a = Class (\<lambda>c. c = a)"

section \<open>Input validation\<close>

text \<open>
  \<^verbatim>\<open>
  export const validateEmail = (email: string): boolean => {
    const emailRegex = /^[^\s@]+@[^\s@]+\.[^\s@]+$/;
    return emailRegex.test(email) && email.length <= 100;
  };
  export const validatePassword = (password: string): boolean => {
    return password.length >= 6 && password.length <= 128;
  };
  \<close>
\<close>

definition emailRegex :: regex where
  "emailRegex =
     Seq (OneOrMore (Class notSpaceOrAt))
       (Seq (lit 0x40)
         (Seq (OneOrMore (Class notSpaceOrAt))
           (Seq (lit 0x2E) (OneOrMore (Class notSpaceOrAt)))))"

definition validateEmail :: "jsstring \<Rightarrow> bool" where
  "validateEmail email = (test emailRegex email \<and> length email \<le> 100)"

definition validatePassword :: "jsstring \<Rightarrow> bool" where
  "validatePassword password = (length password \<ge> 6 \<and> length password \<le> 128)"

section \<open>Errors, documents and the external collaborators\<close>

text \<open>
  The module throws \<^verbatim>\<open>new Error(message)\<close> with six fixed messages, and lets the
  rejections of the platform SDK (objects with a \<^verbatim>\<open>code\<close>) pass through
  \<^verbatim>\<open>authenticateAdmin\<close>. \<open>TooManyAttempts\<close> is the rate-limit message,
  \<open>NotAllowed\<close> the not-authorised message of the admin route.
\<close>

datatype message =
  TooManyAttempts
| EmailInvalid
| PasswordInvalid
| WrongEmailOrPassword
| LoginFailed
| NotAllowed

datatype thrown = Error message | FirebaseError jsstring

fun error_code :: "thrown \<Rightarrow> jsstring option" where
  "error_code (Error m) = None"
| "error_code (FirebaseError c) = Some c"

datatype fsvalue = FString jsstring | FNumber int | FBool bool | FNull

type_synonym document = "jsstring \<Rightarrow> fsvalue option"

text \<open>
  What the module cannot decide itself is the environment of a run: the successive
  readings of \<^verbatim>\<open>Date.now()\<close>, the outcome of \<^verbatim>\<open>getDoc(doc(db, collection, id))\<close>
  for each path (a rejection, or a snapshot that exists with its data or does not exist),
  and the outcome of \<^verbatim>\<open>signInWithEmailAndPassword\<close> for each pair of credentials (a
  rejection or the uid of the user), and the outcome of \<^verbatim>\<open>signOut\<close> (it completes, or
  its promise is rejected and the user stays signed in; the \<^verbatim>\<open>logout\<close> method of the
  repository handles that rejection). The store and the identity provider do not change while
  the module runs, so an outcome depends on the path or the credentials only, and the
  asynchronous functions of the module run one after the other, never interleaved.
\<close>

record env =
  dateNow :: "nat \<Rightarrow> int"
  firestore :: "jsstring \<Rightarrow> jsstring \<Rightarrow> thrown + document option"
  identityProvider :: "jsstring \<Rightarrow> jsstring \<Rightarrow> thrown + jsstring"
  signOutRejection :: "thrown option"

datatype call =
  GetDoc jsstring jsstring
| SignIn jsstring jsstring
| SignOut

record attempt =
  count :: nat
  lastAttempt :: int

text \<open>
  The mutable state: the module-level \<^verbatim>\<open>loginAttempts\<close> map, the number of clock
  readings taken so far, the signed-in user of \<^verbatim>\<open>auth\<close>, and the log of the calls made
  to the platform, oldest first.
\<close>

record world =
  loginAttempts :: "jsstring \<Rightarrow> attempt option"
  ticks :: nat
  currentUser :: "jsstring option"
  calls :: "call list"

definition Date_now :: "env \<Rightarrow> world \<Rightarrow> int \<times> world" where
  "Date_now e w = (dateNow e (ticks w), w\<lparr>ticks := Suc (ticks w)\<rparr>)"

definition getDoc :: "env \<Rightarrow> jsstring \<Rightarrow> jsstring \<Rightarrow> world \<Rightarrow> (thrown + document option) \<times> world" where
  "getDoc e collection ident w =
     (firestore e collection ident, w\<lparr>calls := calls w @ [GetDoc collection ident]\<rparr>)"

definition signInWithEmailAndPassword ::
  "env \<Rightarrow> jsstring \<Rightarrow> jsstring \<Rightarrow> world \<Rightarrow> (thrown + jsstring) \<times> world" where
  "signInWithEmailAndPassword e email password w =
     (case identityProvider e email password of
        Inl err \<Rightarrow> (Inl err, w\<lparr>calls := calls w @ [SignIn email password]\<rparr>)
      | Inr uid \<Rightarrow>
          (Inr uid, w\<lparr>currentUser := Some uid, calls := calls w @ [SignIn email password]\<rparr>))"

definition signOut :: "env \<Rightarrow> world \<Rightarrow> (thrown + unit) \<times> world" where
  "signOut e w =
     (case signOutRejection e of
        Some err \<Rightarrow> (Inl err, w\<lparr>calls := calls w @ [SignOut]\<rparr>)
      | None \<Rightarrow> (Inr (), w\<lparr>currentUser := None, calls := calls w @ [SignOut]\<rparr>))"

section \<open>The attempt throttle\<close>

text \<open>
  \<^verbatim>\<open>
  const loginAttempts = new Map<string, { count: number; lastAttempt: number }>();
  const MAX_LOGIN_ATTEMPTS = 5;
  const LOCKOUT_DURATION = 15 * 60 * 1000; // 15 minutes

  export const isRateLimited = (identifier: string): boolean => {
    const attempt = loginAttempts.get(identifier);
    if (!attempt) return false;
    const now = Date.now();
    if (now - attempt.lastAttempt > LOCKOUT_DURATION) {
      loginAttempts.delete(identifier);
      return false;
    }
    return attempt.count >= MAX_LOGIN_ATTEMPTS;
  };

  export const recordLoginAttempt = (identifier: string, success: boolean): void => {
    const now = Date.now();
    const attempt = loginAttempts.get(identifier) || { count: 0, lastAttempt: now };
    if (success) {
      loginAttempts.delete(identifier);
    } else {
      attempt.count++;
      attempt.lastAttempt = now;
      loginAttempts.set(identifier, attempt);
    }
  };

  export const getClientIdentifier = (): string => {
    return 'client_' + Date.now().toString(36);
  };
  \<close>
  Counters only grow by one from zero and timestamps are integral milliseconds, far
  inside the range where the numbers of the source are exact, so \<open>count\<close> is a natural
  number and a timestamp an integer.
\<close>

definition MAX_LOGIN_ATTEMPTS :: nat where
  "MAX_LOGIN_ATTEMPTS = 5"

definition LOCKOUT_DURATION :: int where
  "LOCKOUT_DURATION = 15 * 60 * 1000"

definition isRateLimited :: "env \<Rightarrow> jsstring \<Rightarrow> world \<Rightarrow> bool \<times> world" where
  "isRateLimited e identifier w =
     (case loginAttempts w identifier of
        None \<Rightarrow> (False, w)
      | Some attempt \<Rightarrow>
          (case Date_now e w of
             (now, w1) \<Rightarrow>
               if now - lastAttempt attempt > LOCKOUT_DURATION
               then (False, w1\<lparr>loginAttempts := (loginAttempts w1)(identifier := None)\<rparr>)
               else (count attempt \<ge> MAX_LOGIN_ATTEMPTS, w1)))"

definition recordLoginAttempt :: "env \<Rightarrow> jsstring \<Rightarrow> bool \<Rightarrow> world \<Rightarrow> world" where
  "recordLoginAttempt e identifier success w =
     (case Date_now e w of
        (now, w1) \<Rightarrow>
          (let attempt =
                 (case loginAttempts w1 identifier of
                    None \<Rightarrow> \<lparr>count = 0, lastAttempt = now\<rparr>
                  | Some a \<Rightarrow> a)
           in if success
              then w1\<lparr>loginAttempts := (loginAttempts w1)(identifier := None)\<rparr>
              else w1\<lparr>loginAttempts := (loginAttempts w1)
                        (identifier \<mapsto> attempt\<lparr>count := count attempt + 1, lastAttempt := now\<rparr>)\<rparr>))"

text \<open>\<^verbatim>\<open>Number.prototype.toString(36)\<close> on an integral number.\<close>

definition digit36 :: "nat \<Rightarrow> code_unit" where
  "digit36 d = (if d < 10 then of_nat (48 + d) else of_nat (87 + d))"

fun digits36 :: "nat \<Rightarrow> jsstring" where
  "digits36 n = (if n < 36 then [digit36 n] else digits36 (n div 36) @ [digit36 (n mod 36)])"

declare digits36.simps [simp del]

definition toString36 :: "int \<Rightarrow> jsstring" where
  "toString36 i = (if i < 0 then js ''-'' @ digits36 (nat (- i)) else digits36 (nat i))"

definition getClientIdentifier :: "env \<Rightarrow> world \<Rightarrow> jsstring \<times> world" where
  "getClientIdentifier e w =
     (case Date_now e w of (now, w1) \<Rightarrow> (js ''client_'' @ toString36 now, w1))"

section \<open>Privilege and ownership\<close>

text \<open>
  \<^verbatim>\<open>
  export const isAdmin = async (uid: string): Promise<boolean> => {
    try {
      const adminDoc = await getDoc(doc(db, 'admins', uid));
      return adminDoc.exists();
    } catch (error) {
      console.error('Error checking admin status:', error);
      return false;
    }
  };

  export const verifyResourceOwnership = async (userId: string, resourceId: string,
      collection: string): Promise<boolean> => {
    try {
      const resourceDoc = await getDoc(doc(db, collection, resourceId));
      if (!resourceDoc.exists()) return false;
      const resourceData = resourceDoc.data();
      return resourceData.authorId === userId || await isAdmin(userId);
    } catch (error) {
      console.error('Error verifying resource ownership:', error);
      return false;
    }
  };
  \<close>
  Each function is its \<^verbatim>\<open>try\<close> block, which may throw, wrapped by its \<^verbatim>\<open>catch\<close>
  handler. A function returns \<open>Inl\<close> of what it throws or \<open>Inr\<close> of what it returns.
\<close>

definition isAdmin_try :: "env \<Rightarrow> jsstring \<Rightarrow> world \<Rightarrow> (thrown + bool) \<times> world" where
  "isAdmin_try e uid w =
     (case getDoc e (js ''admins'') uid w of
        (Inl err, w1) \<Rightarrow> (Inl err, w1)
      | (Inr adminDoc, w1) \<Rightarrow> (Inr (adminDoc \<noteq> None), w1))"

definition isAdmin :: "env \<Rightarrow> jsstring \<Rightarrow> world \<Rightarrow> (thrown + bool) \<times> world" where
  "isAdmin e uid w =
     (case isAdmin_try e uid w of
        (Inl err, w1) \<Rightarrow> (Inr False, w1)
      | (Inr b, w1) \<Rightarrow> (Inr b, w1))"

definition verifyResourceOwnership_try ::
  "env \<Rightarrow> jsstring \<Rightarrow> jsstring \<Rightarrow> jsstring \<Rightarrow> world \<Rightarrow> (thrown + bool) \<times> world" where
  "verifyResourceOwnership_try e userId resourceId collection w =
     (case getDoc e collection resourceId w of
        (Inl err, w1) \<Rightarrow> (Inl err, w1)
      | (Inr None, w1) \<Rightarrow> (Inr False, w1)
      | (Inr (Some resourceData), w1) \<Rightarrow>
          if resourceData (js ''authorId'') = Some (FString userId)
          then (Inr True, w1)
          else isAdmin e userId w1)"

definition verifyResourceOwnership ::
  "env \<Rightarrow> jsstring \<Rightarrow> jsstring \<Rightarrow> jsstring \<Rightarrow> world \<Rightarrow> (thrown + bool) \<times> world" where
  "verifyResourceOwnership e userId resourceId collection w =
     (case verifyResourceOwnership_try e userId resourceId collection w of
        (Inl err, w1) \<Rightarrow> (Inr False, w1)
      | (Inr b, w1) \<Rightarrow> (Inr b, w1))"

text \<open>
  A principal is privileged when its document is in the \<^verbatim>\<open>admins\<close> collection; the
  owner of a resource is the string in its \<^verbatim>\<open>authorId\<close> field.
\<close>

definition privileged :: "env \<Rightarrow> jsstring \<Rightarrow> bool" where
  "privileged e uid =
     (case firestore e (js ''admins'') uid of Inr (Some d) \<Rightarrow> True | _ \<Rightarrow> False)"

definition owns :: "document \<Rightarrow> jsstring \<Rightarrow> bool" where
  "owns resourceData userId = (resourceData (js ''authorId'') = Some (FString userId))"

section \<open>Login\<close>

text \<open>
  \<^verbatim>\<open>
  export const authenticateUser = async (email: string, password: string) => {
    const identifier = getClientIdentifier();
    if (isRateLimited(identifier)) {
      throw new Error(TOO_MANY_ATTEMPTS);
    }
    if (!validateEmail(email)) {
      throw new Error(EMAIL_INVALID);
    }
    if (!validatePassword(password)) {
      throw new Error(PASSWORD_INVALID);
    }
    try {
      const userCredential = await signInWithEmailAndPassword(auth, email, password);
      recordLoginAttempt(identifier, true);
      return userCredential;
    } catch (error: any) {
      recordLoginAttempt(identifier, false);
      // Provide generic error message to prevent user enumeration
      if (error.code === 'auth/user-not-found' || error.code === 'auth/wrong-password') {
        throw new Error(WRONG_EMAIL_OR_PASSWORD);
      }
      throw new Error(LOGIN_FAILED);
    }
  };
  \<close>
  (the message texts of the source are written here by name). The returned credential is
  represented by the uid of its user.
\<close>

definition authenticateUser ::
  "env \<Rightarrow> jsstring \<Rightarrow> jsstring \<Rightarrow> world \<Rightarrow> (thrown + jsstring) \<times> world" where
  "authenticateUser e email password w =
     (case getClientIdentifier e w of
        (identifier, w1) \<Rightarrow>
          (case isRateLimited e identifier w1 of
             (limited, w2) \<Rightarrow>
               if limited then (Inl (Error TooManyAttempts), w2)
               else if \<not> validateEmail email then (Inl (Error EmailInvalid), w2)
               else if \<not> validatePassword password then (Inl (Error PasswordInvalid), w2)
               else
                 (case signInWithEmailAndPassword e email password w2 of
                    (Inr userCredential, w3) \<Rightarrow>
                      (Inr userCredential, recordLoginAttempt e identifier True w3)
                  | (Inl err, w3) \<Rightarrow>
                      (if error_code err = Some (js ''auth/user-not-found'')
                          \<or> error_code err = Some (js ''auth/wrong-password'')
                       then (Inl (Error WrongEmailOrPassword),
                             recordLoginAttempt e identifier False w3)
                       else (Inl (Error LoginFailed),
                             recordLoginAttempt e identifier False w3)))))"

text \<open>
  \<^verbatim>\<open>
  export const authenticateAdmin = async (email: string, password: string): Promise<boolean> => {
    const identifier = getClientIdentifier();
    if (isRateLimited(identifier)) {
      throw new Error(TOO_MANY_ATTEMPTS);
    }
    try {
      // Check if this is the admin route access
      if (!email.includes('admin') && !email.includes('deepbug')) {
        recordLoginAttempt(identifier, false);
        throw new Error(NOT_ALLOWED);
      }
      const userCredential = await signInWithEmailAndPassword(auth, email, password);
      const isUserAdmin = await isAdmin(userCredential.user.uid);
      if (!isUserAdmin) {
        await signOut(auth);
        recordLoginAttempt(identifier, false);
        throw new Error(NOT_ALLOWED);
      }
      recordLoginAttempt(identifier, true);
      return true;
    } catch (error: any) {
      recordLoginAttempt(identifier, false);
      throw error;
    }
  };
  \<close>
  \<open>authenticateAdmin_try\<close> is the \<^verbatim>\<open>try\<close> block; whatever it throws reaches the
  \<^verbatim>\<open>catch\<close> handler, which records a failure and throws it again.
\<close>

definition authenticateAdmin_try ::
  "env \<Rightarrow> jsstring \<Rightarrow> jsstring \<Rightarrow> jsstring \<Rightarrow> world \<Rightarrow> (thrown + bool) \<times> world" where
  "authenticateAdmin_try e identifier email password w =
     (if \<not> includes_js email (js ''admin'') \<and> \<not> includes_js email (js ''deepbug'')
      then (Inl (Error NotAllowed), recordLoginAttempt e identifier False w)
      else
        (case signInWithEmailAndPassword e email password w of
           (Inl err, w1) \<Rightarrow> (Inl err, w1)
         | (Inr uid, w1) \<Rightarrow>
             (case isAdmin e uid w1 of
                (Inl err, w2) \<Rightarrow> (Inl err, w2)
              | (Inr isUserAdmin, w2) \<Rightarrow>
                  if \<not> isUserAdmin
                  then
                    (case signOut e w2 of
                       (Inl err, w3) \<Rightarrow> (Inl err, w3)
                     | (Inr done, w3) \<Rightarrow>
                         (Inl (Error NotAllowed), recordLoginAttempt e identifier False w3))
                  else (Inr True, recordLoginAttempt e identifier True w2))))"

definition authenticateAdmin ::
  "env \<Rightarrow> jsstring \<Rightarrow> jsstring \<Rightarrow> world \<Rightarrow> (thrown + bool) \<times> world" where
  "authenticateAdmin e email password w =
     (case getClientIdentifier e w of
        (identifier, w1) \<Rightarrow>
          (case isRateLimited e identifier w1 of
             (limited, w2) \<Rightarrow>
               if limited then (Inl (Error TooManyAttempts), w2)
               else
                 (case authenticateAdmin_try e identifier email password w2 of
                    (Inl err, w3) \<Rightarrow> (Inl err, recordLoginAttempt e identifier False w3)
                  | (Inr r, w3) \<Rightarrow> (Inr r, w3))))"

text \<open>The number of failures on record for an identifier: none when there is no record.\<close>

definition failureCount :: "world \<Rightarrow> jsstring \<Rightarrow> nat" where
  "failureCount w identifier =
     (case loginAttempts w identifier of None \<Rightarrow> 0 | Some a \<Rightarrow> count a)"

section \<open>Sample environments\<close>

text \<open>
  A store with one administrator \<open>root1\<close> and one article \<open>post1\<close> written by
  \<open>alice\<close>; an identity provider that knows \<open>alice\<close> and \<open>root1\<close> and rejects
  everything else with \<^verbatim>\<open>auth/wrong-password\<close>; a clock that starts at 1000 and
  advances by one millisecond per reading.
\<close>

definition sample_store :: "jsstring \<Rightarrow> jsstring \<Rightarrow> thrown + document option" where
  "sample_store collection ident =
     (if collection = js ''admins'' \<and> ident = js ''root1''
      then Inr (Some (Map.empty(js ''email'' \<mapsto> FString (js ''root@deepbug.io''))))
      else if collection = js ''articles'' \<and> ident = js ''post1''
      then Inr (Some (Map.empty(js ''authorId'' \<mapsto> FString (js ''alice''))))
      else Inr None)"

definition sample_provider :: "jsstring \<Rightarrow> jsstring \<Rightarrow> thrown + jsstring" where
  "sample_provider email password =
     (if email = js ''alice.admin@example.com'' \<and> password = js ''wonderland''
      then Inr (js ''alice'')
      else if email = js ''root@deepbug.io'' \<and> password = js ''correct horse''
      then Inr (js ''root1'')
      else Inl (FirebaseError (js ''auth/wrong-password'')))"

definition sample_env :: env where
  "sample_env =
     \<lparr>dateNow = (\<lambda>n. 1000 + int n), firestore = sample_store,
      identityProvider = sample_provider, signOutRejection = None\<rparr>"

text \<open>The same with a store that cannot be reached: every lookup is rejected.\<close>

definition offline_env :: env where
  "offline_env =
     \<lparr>dateNow = (\<lambda>n. 1000 + int n),
      firestore = (\<lambda>collection ident. Inl (FirebaseError (js ''unavailable''))),
      identityProvider = sample_provider, signOutRejection = None\<rparr>"

text \<open>The same with a store in which only the \<^verbatim>\<open>admins\<close> collection cannot be reached.\<close>

definition admins_down_env :: env where
  "admins_down_env =
     \<lparr>dateNow = (\<lambda>n. 1000 + int n),
      firestore = (\<lambda>collection ident.
        if collection = js ''admins'' then Inl (FirebaseError (js ''unavailable''))
        else sample_store collection ident),
      identityProvider = sample_provider, signOutRejection = None\<rparr>"


text \<open>
  The same collaborators as \<open>sample_env\<close> with a clock that stands at 1000 for its
  first fourteen readings and advances from 1001 afterwards.
\<close>

definition burst_env :: env where
  "burst_env =
     \<lparr>dateNow = (\<lambda>n. if n < 14 then 1000 else 987 + int n), firestore = sample_store,
      identityProvider = sample_provider, signOutRejection = None\<rparr>"

definition fresh_world :: world where
  "fresh_world = \<lparr>loginAttempts = Map.empty, ticks = 0, currentUser = None, calls = []\<rparr>"

text \<open>
  A state with five failures recorded at time 0 for one identifier, and a clock that reads
  one millisecond more than fifteen minutes.
\<close>

definition stale_world :: world where
  "stale_world =
     \<lparr>loginAttempts = Map.empty(js ''client_7'' \<mapsto> \<lparr>count = 5, lastAttempt = 0\<rparr>),
      ticks = 0, currentUser = None, calls = []\<rparr>"

definition late_env :: env where
  "late_env =
     \<lparr>dateNow = (\<lambda>n. 900001 + int n), firestore = sample_store,
      identityProvider = sample_provider, signOutRejection = None\<rparr>"

text \<open>One failing login of \<open>bob\<close>, and five of them in a row.\<close>

definition bob_login :: "env \<Rightarrow> world \<Rightarrow> (thrown + jsstring) \<times> world" where
  "bob_login e w = authenticateUser e (js ''bob@example.com'') (js ''guess-1'') w"

definition after_five :: "env \<Rightarrow> world" where
  "after_five e =
     snd (bob_login e (snd (bob_login e (snd (bob_login e (snd (bob_login e
       (snd (bob_login e fresh_world)))))))))"

text \<open>
  The state after \<open>k\<close> failed logins of \<open>bob\<close> that were all given the identifier
  \<^verbatim>\<open>client_rs\<close> (the identifier of the clock reading 1000), with \<open>t\<close> clock
  readings taken.
\<close>

definition bob_call :: call where
  "bob_call = SignIn (js ''bob@example.com'') (js ''guess-1'')"

definition burst_world :: "nat \<Rightarrow> nat \<Rightarrow> world" where
  "burst_world k t =
     \<lparr>loginAttempts = Map.empty(js ''client_rs'' \<mapsto> \<lparr>count = k, lastAttempt = 1000\<rparr>),
      ticks = t, currentUser = None, calls = replicate k bob_call\<rparr>"

section \<open>Where identifiers come from\<close>

text \<open>
  The value of a base-36 numeral, to read a clock reading back from an identifier, and the
  invariant of the attempt table: every identifier with a record was derived by
  \<open>getClientIdentifier\<close> from a clock reading already taken.
\<close>

definition undigit36 :: "code_unit \<Rightarrow> nat" where
  "undigit36 c = (if unat c < 58 then unat c - 48 else unat c - 87)"

definition value36 :: "jsstring \<Rightarrow> nat" where
  "value36 s = foldl (\<lambda>v c. 36 * v + undigit36 c) 0 s"

definition derived_identifiers :: "env \<Rightarrow> world \<Rightarrow> bool" where
  "derived_identifiers e w =
     (\<forall>ident. loginAttempts w ident \<noteq> None \<longrightarrow>
        (\<exists>n < ticks w. ident = js ''client_'' @ toString36 (dateNow e n)))"

section \<open>Properties of the validators\<close>

lemmas email_eval =
  validateEmail_def emailRegex_def OneOrMore_def lit_def notSpaceOrAt_def isSpace_def js_def

text \<open>
  C9: \<open>validateEmail\<close> accepts \<^verbatim>\<open>a@b.com\<close>, rejects \<^verbatim>\<open>not-an-email\<close>, and rejects
  every string of more than 100 code units; in particular the 101-unit string made of 95
  letters \<^verbatim>\<open>a\<close> followed by \<^verbatim>\<open>@b.com\<close>, which the regular expression itself accepts.
\<close>

theorem validateEmail_examples:
  "validateEmail (js ''a@b.com'')
   \<and> \<not> validateEmail (js ''not-an-email'')
   \<and> (\<forall>email. length email > 100 \<longrightarrow> \<not> validateEmail email)
   \<and> test emailRegex (replicate 95 0x61 @ js ''@b.com'')
   \<and> length (replicate 95 (0x61 :: code_unit) @ js ''@b.com'') = 101"
proof -
  have "validateEmail (js ''a@b.com'')"
    by (simp add: email_eval)
  moreover have "\<not> validateEmail (js ''not-an-email'')"
    by (simp add: email_eval)
  moreover have "\<forall>email. length email > 100 \<longrightarrow> \<not> validateEmail email"
    by (simp add: validateEmail_def)
  moreover have "test emailRegex (replicate 95 0x61 @ js ''@b.com'')"
    by code_simp
  moreover have "length (replicate 95 (0x61 :: code_unit) @ js ''@b.com'') = 101"
    by (simp add: js_def)
  ultimately show ?thesis by blast
qed

theorem validateEmail_examples_witness:
  "length (replicate 95 (0x61 :: code_unit) @ js ''@b.com'') > 100
   \<and> \<not> validateEmail (replicate 95 0x61 @ js ''@b.com'')"
proof -
  have long: "length (replicate 95 (0x61 :: code_unit) @ js ''@b.com'') > 100"
    by (simp add: js_def)
  with validateEmail_examples show ?thesis by blast
qed

section \<open>Properties of the attempt throttle\<close>

lemma attempt_overwrite [simp]:
  "a\<lparr>count := c, lastAttempt := t\<rparr> = \<lparr>count = c, lastAttempt = t\<rparr>"
  by (cases a) simp

lemma recordLoginAttempt_failure:
  "recordLoginAttempt e i False w =
     w\<lparr>loginAttempts := (loginAttempts w)
          (i \<mapsto> \<lparr>count = failureCount w i + 1, lastAttempt = dateNow e (ticks w)\<rparr>),
       ticks := Suc (ticks w)\<rparr>"
  by (simp add: recordLoginAttempt_def Date_now_def failureCount_def split: option.splits)

lemma recordLoginAttempt_success:
  "recordLoginAttempt e i True w =
     w\<lparr>loginAttempts := (loginAttempts w)(i := None), ticks := Suc (ticks w)\<rparr>"
  by (simp add: recordLoginAttempt_def Date_now_def)

text \<open>
  After \<open>n + 1\<close> failures in a row the record counts \<open>n + 1\<close> more failures than
  before and carries the clock reading of the last one.
\<close>

lemma failures_accumulate:
  "loginAttempts ((recordLoginAttempt e i False ^^ Suc n) w) i =
     Some \<lparr>count = failureCount w i + Suc n, lastAttempt = dateNow e (ticks w + n)\<rparr>
   \<and> ticks ((recordLoginAttempt e i False ^^ Suc n) w) = ticks w + Suc n"
proof (induction n)
  case 0
  show ?case by (simp add: recordLoginAttempt_failure)
next
  case (Suc n)
  then show ?case
    by (simp add: recordLoginAttempt_failure failureCount_def)
qed

text \<open>
  C4: for every identifier with no failure on record, after five failures recorded in a
  row \<open>isRateLimited\<close> answers true, provided its own clock reading is at most
  \<open>LOCKOUT_DURATION\<close> after the reading of the fifth failure; after four failures
  recorded in a row it answers false.
\<close>

theorem five_failures_block_four_do_not:
  assumes "failureCount w i = 0"
    and "dateNow e (ticks w + 5) - dateNow e (ticks w + 4) \<le> LOCKOUT_DURATION"
  shows "fst (isRateLimited e i ((recordLoginAttempt e i False ^^ 5) w)) = True
       \<and> fst (isRateLimited e i ((recordLoginAttempt e i False ^^ 4) w)) = False"
proof -
  have five: "(5::nat) = Suc 4" and four: "(4::nat) = Suc 3" by simp_all
  have a: "fst (isRateLimited e i ((recordLoginAttempt e i False ^^ 5) w)) = True"
    unfolding five
    using assms failures_accumulate [where e = e and i = i and n = 4 and w = w]
    by (simp add: isRateLimited_def Date_now_def MAX_LOGIN_ATTEMPTS_def del: funpow.simps)
  have b: "fst (isRateLimited e i ((recordLoginAttempt e i False ^^ 4) w)) = False"
    unfolding four
    using assms failures_accumulate [where e = e and i = i and n = 3 and w = w]
    by (simp add: isRateLimited_def Date_now_def MAX_LOGIN_ATTEMPTS_def del: funpow.simps)
  from a b show ?thesis by simp
qed

theorem five_failures_block_four_do_not_witness:
  "failureCount fresh_world (js ''client_rs'') = 0
   \<and> dateNow sample_env (ticks fresh_world + 5) - dateNow sample_env (ticks fresh_world + 4)
       \<le> LOCKOUT_DURATION
   \<and> fst (isRateLimited sample_env (js ''client_rs'')
            ((recordLoginAttempt sample_env (js ''client_rs'') False ^^ 5) fresh_world)) = True
   \<and> fst (isRateLimited sample_env (js ''client_rs'')
            ((recordLoginAttempt sample_env (js ''client_rs'') False ^^ 4) fresh_world)) = False"
proof -
  have none: "failureCount fresh_world (js ''client_rs'') = 0"
    by (simp add: failureCount_def fresh_world_def)
  have recent:
    "dateNow sample_env (ticks fresh_world + 5) - dateNow sample_env (ticks fresh_world + 4)
       \<le> LOCKOUT_DURATION"
    by (simp add: sample_env_def LOCKOUT_DURATION_def)
  from five_failures_block_four_do_not [OF none recent] none recent
  show ?thesis by simp
qed

text \<open>
  C5: for every identifier whose record counts at least \<open>MAX_LOGIN_ATTEMPTS\<close> failures,
  once the clock reads more than \<open>LOCKOUT_DURATION\<close> past \<open>lastAttempt\<close>,
  \<open>isRateLimited\<close> answers false and deletes the record; nothing else changes but the
  count of clock readings.
\<close>

theorem stale_record_purged:
  assumes "loginAttempts w i = Some a"
    and "count a \<ge> MAX_LOGIN_ATTEMPTS"
    and "dateNow e (ticks w) - lastAttempt a > LOCKOUT_DURATION"
  shows "isRateLimited e i w =
           (False, w\<lparr>ticks := Suc (ticks w), loginAttempts := (loginAttempts w)(i := None)\<rparr>)"
  using assms by (simp add: isRateLimited_def Date_now_def)

theorem stale_record_purged_witness:
  "loginAttempts stale_world (js ''client_7'') = Some \<lparr>count = 5, lastAttempt = 0\<rparr>
   \<and> count \<lparr>count = 5, lastAttempt = 0\<rparr> \<ge> MAX_LOGIN_ATTEMPTS
   \<and> dateNow late_env (ticks stale_world) - lastAttempt \<lparr>count = 5, lastAttempt = 0\<rparr>
        > LOCKOUT_DURATION
   \<and> fst (isRateLimited late_env (js ''client_7'') stale_world) = False
   \<and> loginAttempts (snd (isRateLimited late_env (js ''client_7'') stale_world)) (js ''client_7'')
       = None"
proof -
  have rec: "loginAttempts stale_world (js ''client_7'') = Some \<lparr>count = 5, lastAttempt = 0\<rparr>"
    by (simp add: stale_world_def)
  have many: "count \<lparr>count = 5, lastAttempt = 0\<rparr> \<ge> MAX_LOGIN_ATTEMPTS"
    by (simp add: MAX_LOGIN_ATTEMPTS_def)
  have late:
    "dateNow late_env (ticks stale_world) - lastAttempt \<lparr>count = 5, lastAttempt = 0\<rparr>
       > LOCKOUT_DURATION"
    by (simp add: late_env_def stale_world_def LOCKOUT_DURATION_def)
  from stale_record_purged [OF rec many late] rec many late
  show ?thesis by simp
qed

text \<open>
  C6: for every identifier and every state, \<open>recordLoginAttempt\<close> with success deletes
  the record of the identifier, so that its failure count is 0 and \<open>isRateLimited\<close>
  answers false afterwards; with failure it stores a record whose count is one more than
  the count on record (0 when there was no record) and whose \<open>lastAttempt\<close> is the
  clock reading of the call. No other record changes.
\<close>

theorem recordLoginAttempt_outcome:
  "recordLoginAttempt e i True w =
     w\<lparr>ticks := Suc (ticks w), loginAttempts := (loginAttempts w)(i := None)\<rparr>
   \<and> failureCount (recordLoginAttempt e i True w) i = 0
   \<and> fst (isRateLimited e i (recordLoginAttempt e i True w)) = False
   \<and> recordLoginAttempt e i False w =
       w\<lparr>ticks := Suc (ticks w),
         loginAttempts := (loginAttempts w)
           (i \<mapsto> \<lparr>count = failureCount w i + 1, lastAttempt = dateNow e (ticks w)\<rparr>)\<rparr>
   \<and> failureCount (recordLoginAttempt e i False w) i = failureCount w i + 1"
  by (simp add: recordLoginAttempt_success recordLoginAttempt_failure failureCount_def
      isRateLimited_def)

section \<open>Properties of the ownership check\<close>

text \<open>
  \<open>isAdmin\<close> makes one lookup in \<^verbatim>\<open>admins\<close> and returns whether it found the
  document; a rejected lookup counts as not found.
\<close>

lemma isAdmin_result:
  "isAdmin e uid w =
     (Inr (privileged e uid), w\<lparr>calls := calls w @ [GetDoc (js ''admins'') uid]\<rparr>)"
  by (simp add: isAdmin_def isAdmin_try_def getDoc_def privileged_def
      split: sum.splits option.splits)

lemma verify_failed:
  "firestore e collection resourceId = Inl err \<Longrightarrow>
   verifyResourceOwnership e userId resourceId collection w =
     (Inr False, w\<lparr>calls := calls w @ [GetDoc collection resourceId]\<rparr>)"
  by (simp add: verifyResourceOwnership_def verifyResourceOwnership_try_def getDoc_def)

lemma verify_absent:
  "firestore e collection resourceId = Inr None \<Longrightarrow>
   verifyResourceOwnership e userId resourceId collection w =
     (Inr False, w\<lparr>calls := calls w @ [GetDoc collection resourceId]\<rparr>)"
  by (simp add: verifyResourceOwnership_def verifyResourceOwnership_try_def getDoc_def)

lemma verify_present:
  "firestore e collection resourceId = Inr (Some resourceData) \<Longrightarrow>
   fst (verifyResourceOwnership e userId resourceId collection w) =
     Inr (owns resourceData userId \<or> privileged e userId)"
  by (simp add: verifyResourceOwnership_def verifyResourceOwnership_try_def getDoc_def
      isAdmin_result owns_def)

lemma root1_privileged: "privileged sample_env (js ''root1'')"
  by (simp add: privileged_def sample_env_def sample_store_def)

lemma post2_absent: "firestore sample_env (js ''articles'') (js ''post2'') = Inr None"
  by (simp add: sample_env_def sample_store_def js_def)

lemma post1_present:
  "firestore sample_env (js ''articles'') (js ''post1'') =
     Inr (Some (Map.empty(js ''authorId'' \<mapsto> FString (js ''alice''))))"
  by (simp add: sample_env_def sample_store_def js_def)

text \<open>
  C1, as stated, fails: the administrator \<open>root1\<close> is privileged, and
  \<open>verifyResourceOwnership\<close> returns false for the article \<open>post2\<close>, which does not
  exist.
\<close>

theorem privileged_refused_on_absent_resource:
  "privileged sample_env (js ''root1'')
   \<and> fst (verifyResourceOwnership sample_env (js ''root1'') (js ''post2'') (js ''articles'')
            fresh_world) = Inr False"
  by (simp add: verify_absent [OF post2_absent] root1_privileged)

text \<open>
  C1, amended: for every principal and every resource whose lookup finds a document,
  \<open>verifyResourceOwnership\<close> returns true if and only if the \<^verbatim>\<open>authorId\<close> of the
  document is the id of the principal or the principal is privileged. So it is true for the
  owner whatever the privilege, true for a privileged principal whatever the owner, and
  false for a principal that is neither.
\<close>

theorem verifyResourceOwnership_of_existing:
  assumes "firestore e collection resourceId = Inr (Some resourceData)"
  shows "fst (verifyResourceOwnership e userId resourceId collection w) =
           Inr (owns resourceData userId \<or> privileged e userId)"
  using assms by (rule verify_present)

theorem verifyResourceOwnership_of_existing_witness:
  "firestore sample_env (js ''articles'') (js ''post1'') =
     Inr (Some (Map.empty(js ''authorId'' \<mapsto> FString (js ''alice''))))
   \<and> fst (verifyResourceOwnership sample_env (js ''alice'') (js ''post1'') (js ''articles'')
            fresh_world) = Inr True
   \<and> fst (verifyResourceOwnership sample_env (js ''root1'') (js ''post1'') (js ''articles'')
            fresh_world) = Inr True
   \<and> fst (verifyResourceOwnership sample_env (js ''mallory'') (js ''post1'') (js ''articles'')
            fresh_world) = Inr False"
proof -
  have alice: "owns (Map.empty(js ''authorId'' \<mapsto> FString (js ''alice''))) (js ''alice'')"
    by (simp add: owns_def)
  have mallory: "\<not> owns (Map.empty(js ''authorId'' \<mapsto> FString (js ''alice''))) (js ''mallory'')"
    by (simp add: owns_def js_def)
  have plain: "\<not> privileged sample_env (js ''mallory'')"
    by (simp add: privileged_def sample_env_def sample_store_def js_def)
  from verifyResourceOwnership_of_existing [OF post1_present, of "js ''alice''" fresh_world]
    verifyResourceOwnership_of_existing [OF post1_present, of "js ''root1''" fresh_world]
    verifyResourceOwnership_of_existing [OF post1_present, of "js ''mallory''" fresh_world]
    alice mallory plain root1_privileged post1_present
  show ?thesis by simp
qed

text \<open>
  C8: \<open>isAdmin\<close> and \<open>verifyResourceOwnership\<close> never throw: for every input each
  returns a boolean. When the lookup of \<open>isAdmin\<close> is rejected it returns false; when the
  lookup of the resource is rejected, or finds no document, or finds a document of another
  author and the lookup in \<^verbatim>\<open>admins\<close> is rejected, \<open>verifyResourceOwnership\<close>
  returns false.
\<close>

theorem lookups_fail_closed:
  "(\<exists>b. fst (isAdmin e uid w) = Inr b)
   \<and> (\<exists>b. fst (verifyResourceOwnership e userId resourceId collection w) = Inr b)
   \<and> (isl (firestore e (js ''admins'') uid) \<longrightarrow> fst (isAdmin e uid w) = Inr False)
   \<and> (isl (firestore e collection resourceId) \<longrightarrow>
        fst (verifyResourceOwnership e userId resourceId collection w) = Inr False)
   \<and> (firestore e collection resourceId = Inr None \<longrightarrow>
        fst (verifyResourceOwnership e userId resourceId collection w) = Inr False)
   \<and> (firestore e collection resourceId = Inr (Some resourceData)
        \<and> \<not> owns resourceData userId \<and> isl (firestore e (js ''admins'') userId) \<longrightarrow>
        fst (verifyResourceOwnership e userId resourceId collection w) = Inr False)"
proof -
  have a: "\<exists>b. fst (isAdmin e uid w) = Inr b"
    by (simp add: isAdmin_result)
  have b: "\<exists>b. fst (verifyResourceOwnership e userId resourceId collection w) = Inr b"
  proof (cases "firestore e collection resourceId")
    case (Inl err)
    then show ?thesis by (auto simp: verify_failed)
  next
    case (Inr snapshot)
    then show ?thesis
      by (cases snapshot) (auto simp: verify_absent verify_present)
  qed
  have c: "isl (firestore e (js ''admins'') uid) \<longrightarrow> fst (isAdmin e uid w) = Inr False"
    by (auto simp: isAdmin_result privileged_def isl_def)
  have d: "isl (firestore e collection resourceId) \<longrightarrow>
        fst (verifyResourceOwnership e userId resourceId collection w) = Inr False"
    by (auto simp: verify_failed isl_def)
  have f: "firestore e collection resourceId = Inr None \<longrightarrow>
        fst (verifyResourceOwnership e userId resourceId collection w) = Inr False"
    by (simp add: verify_absent)
  have g: "firestore e collection resourceId = Inr (Some resourceData)
        \<and> \<not> owns resourceData userId \<and> isl (firestore e (js ''admins'') userId) \<longrightarrow>
        fst (verifyResourceOwnership e userId resourceId collection w) = Inr False"
    by (auto simp: verify_present privileged_def isl_def)
  from a b c d f g show ?thesis by blast
qed

theorem lookups_fail_closed_witness:
  "isl (firestore offline_env (js ''admins'') (js ''root1''))
   \<and> fst (isAdmin offline_env (js ''root1'') fresh_world) = Inr False
   \<and> isl (firestore offline_env (js ''articles'') (js ''post1''))
   \<and> fst (verifyResourceOwnership offline_env (js ''alice'') (js ''post1'') (js ''articles'')
            fresh_world) = Inr False
   \<and> firestore sample_env (js ''articles'') (js ''post2'') = Inr None
   \<and> fst (verifyResourceOwnership sample_env (js ''root1'') (js ''post2'') (js ''articles'')
            fresh_world) = Inr False
   \<and> firestore admins_down_env (js ''articles'') (js ''post1'') =
        Inr (Some (Map.empty(js ''authorId'' \<mapsto> FString (js ''alice''))))
   \<and> \<not> owns (Map.empty(js ''authorId'' \<mapsto> FString (js ''alice''))) (js ''root1'')
   \<and> isl (firestore admins_down_env (js ''admins'') (js ''root1''))
   \<and> fst (verifyResourceOwnership admins_down_env (js ''root1'') (js ''post1'') (js ''articles'')
            fresh_world) = Inr False"
proof -
  have off1: "isl (firestore offline_env (js ''admins'') (js ''root1''))"
    and off2: "isl (firestore offline_env (js ''articles'') (js ''post1''))"
    by (simp_all add: offline_env_def)
  have present: "firestore admins_down_env (js ''articles'') (js ''post1'') =
        Inr (Some (Map.empty(js ''authorId'' \<mapsto> FString (js ''alice''))))"
    by (simp add: admins_down_env_def sample_store_def js_def)
  have other: "\<not> owns (Map.empty(js ''authorId'' \<mapsto> FString (js ''alice''))) (js ''root1'')"
    by (simp add: owns_def js_def)
  have down: "isl (firestore admins_down_env (js ''admins'') (js ''root1''))"
    by (simp add: admins_down_env_def)
  from lookups_fail_closed [of offline_env "js ''root1''" fresh_world "js ''alice''"
      "js ''post1''" "js ''articles''"]
    lookups_fail_closed [of sample_env "js ''root1''" fresh_world "js ''root1''"
      "js ''post2''" "js ''articles''"]
    lookups_fail_closed [of admins_down_env "js ''root1''" fresh_world "js ''root1''"
      "js ''post1''" "js ''articles''" "Map.empty(js ''authorId'' \<mapsto> FString (js ''alice''))"]
    off1 off2 post2_absent present other down
  show ?thesis by blast
qed

text \<open>
  C10: for every principal, privileged or not, if the lookup of the resource finds no
  document then \<open>verifyResourceOwnership\<close> returns false, and the lookup of the resource
  is the only call it makes: \<open>isAdmin\<close> is not consulted.
\<close>

theorem absent_resource_overrides_privilege:
  assumes "firestore e collection resourceId = Inr None"
  shows "verifyResourceOwnership e userId resourceId collection w =
           (Inr False, w\<lparr>calls := calls w @ [GetDoc collection resourceId]\<rparr>)"
  using assms by (rule verify_absent)

theorem absent_resource_overrides_privilege_witness:
  "firestore sample_env (js ''articles'') (js ''post2'') = Inr None
   \<and> privileged sample_env (js ''root1'')
   \<and> verifyResourceOwnership sample_env (js ''root1'') (js ''post2'') (js ''articles'')
        fresh_world =
       (Inr False, fresh_world\<lparr>calls := [GetDoc (js ''articles'') (js ''post2'')]\<rparr>)"
  using absent_resource_overrides_privilege [OF post2_absent, of "js ''root1''" fresh_world]
    post2_absent root1_privileged
  by (simp add: fresh_world_def)

section \<open>Properties of the privileged-route login\<close>

lemma isRateLimited_frame:
  "isRateLimited e i w = (b, w') \<Longrightarrow> calls w' = calls w \<and> currentUser w' = currentUser w"
  by (auto simp: isRateLimited_def Date_now_def split: option.splits if_splits)

lemma getClientIdentifier_frame:
  "getClientIdentifier e w = (i, w') \<Longrightarrow> calls w' = calls w \<and> currentUser w' = currentUser w"
  by (auto simp: getClientIdentifier_def Date_now_def)

lemma recordLoginAttempt_frame:
  "calls (recordLoginAttempt e i s w) = calls w
   \<and> currentUser (recordLoginAttempt e i s w) = currentUser w"
  by (cases s) (simp_all add: recordLoginAttempt_failure recordLoginAttempt_success)

lemma failureCount_recorded:
  "failureCount (recordLoginAttempt e i False w) i = failureCount w i + 1"
  by (simp add: recordLoginAttempt_failure failureCount_def)


lemma authenticateAdmin_limited:
  assumes "getClientIdentifier e w = (ident, w1)"
    and "isRateLimited e ident w1 = (True, w2)"
  shows "authenticateAdmin e email password w = (Inl (Error TooManyAttempts), w2)"
  using assms by (simp add: authenticateAdmin_def)

text \<open>
  The rejection thrown inside the \<^verbatim>\<open>try\<close> block passes through the \<^verbatim>\<open>catch\<close>
  handler, so \<open>recordLoginAttempt\<close> runs twice on these two paths.
\<close>

lemma authenticateAdmin_no_marker:
  assumes "\<not> includes_js email (js ''admin'')" and "\<not> includes_js email (js ''deepbug'')"
    and "getClientIdentifier e w = (ident, w1)"
    and "isRateLimited e ident w1 = (False, w2)"
  shows "authenticateAdmin e email password w =
           (Inl (Error NotAllowed),
            recordLoginAttempt e ident False (recordLoginAttempt e ident False w2))"
  using assms by (simp add: authenticateAdmin_def authenticateAdmin_try_def)



lemma fresh_identifier:
  "getClientIdentifier sample_env fresh_world = (js ''client_rs'', fresh_world\<lparr>ticks := 1\<rparr>)"
proof -
  have "toString36 1000 = js ''rs''" by code_simp
  then show ?thesis
    by (simp add: getClientIdentifier_def Date_now_def sample_env_def fresh_world_def js_def)
qed

lemma fresh_not_limited:
  "isRateLimited sample_env (js ''client_rs'') (fresh_world\<lparr>ticks := 1\<rparr>) =
     (False, fresh_world\<lparr>ticks := 1\<rparr>)"
  by (simp add: isRateLimited_def fresh_world_def)

lemma bob_no_marker:
  "\<not> includes_js (js ''bob@example.com'') (js ''admin'')"
  "\<not> includes_js (js ''bob@example.com'') (js ''deepbug'')"
  by (simp_all add: js_def)

text \<open>
  C3, as stated, fails: the email \<^verbatim>\<open>bob@example.com\<close> contains neither marker, the
  identifier \<^verbatim>\<open>client_rs\<close> of the call has no record before the call, and a record of
  two failures after it.
\<close>

theorem rejected_marker_consumes_attempt:
  "\<not> includes_js (js ''bob@example.com'') (js ''admin'')
   \<and> \<not> includes_js (js ''bob@example.com'') (js ''deepbug'')
   \<and> fst (getClientIdentifier sample_env fresh_world) = js ''client_rs''
   \<and> loginAttempts fresh_world (js ''client_rs'') = None
   \<and> loginAttempts
        (snd (authenticateAdmin sample_env (js ''bob@example.com'') (js ''guess-1'') fresh_world))
        (js ''client_rs'') = Some \<lparr>count = 2, lastAttempt = 1002\<rparr>"
proof -
  have "loginAttempts fresh_world (js ''client_rs'') = None"
    by (simp add: fresh_world_def)
  moreover have "loginAttempts
        (snd (authenticateAdmin sample_env (js ''bob@example.com'') (js ''guess-1'') fresh_world))
        (js ''client_rs'') = Some \<lparr>count = 2, lastAttempt = 1002\<rparr>"
    unfolding authenticateAdmin_no_marker [OF bob_no_marker fresh_identifier fresh_not_limited]
    by (simp add: recordLoginAttempt_failure failureCount_def fresh_world_def sample_env_def)
  ultimately show ?thesis
    using bob_no_marker fresh_identifier by simp
qed

text \<open>
  C3, amended: when the email contains neither \<^verbatim>\<open>admin\<close> nor \<^verbatim>\<open>deepbug\<close>,
  \<open>authenticateAdmin\<close> is rejected without any call to the platform: with the rate-limit
  error when the identifier of the call is rate limited, and otherwise with the
  not-authorised error, and then a failed attempt is recorded: the failure count of the
  identifier is higher after the call than it was after the throttle check.
\<close>

theorem authenticateAdmin_without_marker:
  assumes "\<not> includes_js email (js ''admin'')" and "\<not> includes_js email (js ''deepbug'')"
    and "getClientIdentifier e w = (ident, w1)"
    and "isRateLimited e ident w1 = (limited, w2)"
  shows "fst (authenticateAdmin e email password w) =
           Inl (Error (if limited then TooManyAttempts else NotAllowed))
     \<and> calls (snd (authenticateAdmin e email password w)) = calls w
     \<and> (\<not> limited \<longrightarrow>
          failureCount (snd (authenticateAdmin e email password w)) ident
            > failureCount w2 ident)"
proof -
  have same: "calls w2 = calls w"
    using isRateLimited_frame [OF assms(4)] getClientIdentifier_frame [OF assms(3)] by simp
  show ?thesis
  proof (cases limited)
    case True
    with assms(4) have "isRateLimited e ident w1 = (True, w2)" by simp
    from authenticateAdmin_limited [OF assms(3) this] True same
    show ?thesis by simp
  next
    case False
    with assms(4) have "isRateLimited e ident w1 = (False, w2)" by simp
    from authenticateAdmin_no_marker [OF assms(1) assms(2) assms(3) this] False same
    show ?thesis
      by (simp add: recordLoginAttempt_frame failureCount_recorded)
  qed
qed

theorem authenticateAdmin_without_marker_witness:
  "\<not> includes_js (js ''bob@example.com'') (js ''admin'')
   \<and> \<not> includes_js (js ''bob@example.com'') (js ''deepbug'')
   \<and> getClientIdentifier sample_env fresh_world = (js ''client_rs'', fresh_world\<lparr>ticks := 1\<rparr>)
   \<and> isRateLimited sample_env (js ''client_rs'') (fresh_world\<lparr>ticks := 1\<rparr>) =
        (False, fresh_world\<lparr>ticks := 1\<rparr>)
   \<and> fst (authenticateAdmin sample_env (js ''bob@example.com'') (js ''guess-1'') fresh_world) =
        Inl (Error NotAllowed)
   \<and> calls (snd (authenticateAdmin sample_env (js ''bob@example.com'') (js ''guess-1'')
        fresh_world)) = calls fresh_world
   \<and> failureCount (snd (authenticateAdmin sample_env (js ''bob@example.com'') (js ''guess-1'')
        fresh_world)) (js ''client_rs'')
       > failureCount (fresh_world\<lparr>ticks := 1\<rparr>) (js ''client_rs'')"
  using authenticateAdmin_without_marker
      [OF bob_no_marker fresh_identifier fresh_not_limited, of "js ''guess-1''"]
    bob_no_marker fresh_identifier fresh_not_limited
  by simp










section \<open>Six failed logins\<close>

text \<open>Base-36 numerals determine the number, so identifiers determine the clock reading.\<close>

lemma unat_digit36:
  "d < 36 \<Longrightarrow> unat (digit36 d) = (if d < 10 then 48 + d else 87 + d)"
proof -
  assume d: "d < 36"
  have "unat (of_nat (48 + d) :: code_unit) = 48 + d"
    using d by (simp only: unat_of_nat) simp
  moreover have "unat (of_nat (87 + d) :: code_unit) = 87 + d"
    using d by (simp only: unat_of_nat) simp
  ultimately show ?thesis
    by (simp only: digit36_def split: if_splits) simp
qed

lemma undigit36_digit36: "d < 36 \<Longrightarrow> undigit36 (digit36 d) = d"
  by (simp add: undigit36_def unat_digit36)

lemma value36_snoc: "value36 (s @ [c]) = 36 * value36 s + undigit36 c"
  by (simp add: value36_def)

lemma value36_digits36: "value36 (digits36 n) = n"
proof (induction n rule: digits36.induct)
  case (1 n)
  show ?case
  proof (cases "n < 36")
    case True
    then show ?thesis
      by (subst digits36.simps) (simp add: value36_def undigit36_digit36)
  next
    case False
    with 1 have "value36 (digits36 (n div 36)) = n div 36" by simp
    with False show ?thesis
      by (subst digits36.simps) (simp add: value36_snoc undigit36_digit36)
  qed
qed

lemma digits36_head: "digits36 n \<noteq> [] \<and> hd (digits36 n) \<noteq> 45"
proof (induction n rule: digits36.induct)
  case (1 n)
  show ?case
  proof (cases "n < 36")
    case True
    then have "unat (digit36 n) \<noteq> 45" by (simp add: unat_digit36)
    then have "digit36 n \<noteq> 45" by auto
    with True show ?thesis
      by (subst digits36.simps, subst (2) digits36.simps) simp
  next
    case False
    with 1 show ?thesis
      by (subst digits36.simps, subst (2) digits36.simps) simp
  qed
qed

lemma toString36_inj: "toString36 i = toString36 j \<Longrightarrow> i = j"
proof -
  assume eq: "toString36 i = toString36 j"
  have neg: "\<And>a b. a < 0 \<Longrightarrow> \<not> b < 0 \<Longrightarrow> toString36 a \<noteq> toString36 b"
  proof
    fix a b :: int
    assume "a < 0" "\<not> b < 0" "toString36 a = toString36 b"
    then have "hd (digits36 (nat b)) = 45"
      by (simp add: toString36_def js_def) (metis list.sel(1))
    with digits36_head show False by blast
  qed
  show ?thesis
  proof (cases "i < 0")
    case True
    show ?thesis
    proof (cases "j < 0")
      case True
      with \<open>i < 0\<close> eq have "digits36 (nat (- i)) = digits36 (nat (- j))"
        by (simp add: toString36_def)
      then have "nat (- i) = nat (- j)"
        by (metis value36_digits36)
      with True \<open>i < 0\<close> show ?thesis by simp
    next
      case False
      with neg [OF \<open>i < 0\<close>] eq show ?thesis by blast
    qed
  next
    case False
    show ?thesis
    proof (cases "j < 0")
      case True
      with neg [OF True False] eq show ?thesis by simp
    next
      case jf: False
      with False eq have "digits36 (nat i) = digits36 (nat j)"
        by (simp add: toString36_def)
      then have "nat i = nat j"
        by (metis value36_digits36)
      with False jf show ?thesis by simp
    qed
  qed
qed

text \<open>
  Every step of a login keeps the invariant, and a login whose first clock reading differs
  from all earlier readings is given an identifier without a record: it is never rate
  limited and, with well-formed input, calls the identity provider.
\<close>

lemma derived_isRateLimited:
  "derived_identifiers e w \<Longrightarrow> derived_identifiers e (snd (isRateLimited e i w))"
  by (auto simp: derived_identifiers_def isRateLimited_def Date_now_def less_Suc_eq
      split: option.splits if_splits)

lemma derived_recordLoginAttempt:
  assumes "derived_identifiers e w"
    and "n < ticks w" and "i = js ''client_'' @ toString36 (dateNow e n)"
  shows "derived_identifiers e (recordLoginAttempt e i s w)"
proof (cases s)
  case True
  with assms(1) show ?thesis
    by (auto simp: derived_identifiers_def recordLoginAttempt_success less_Suc_eq
        split: if_splits)
next
  case False
  with assms show ?thesis
    by (auto simp: derived_identifiers_def recordLoginAttempt_failure less_Suc_eq
        split: if_splits)
qed

lemma derived_getClientIdentifier:
  assumes "derived_identifiers e w" and "getClientIdentifier e w = (ident, w1)"
  shows "derived_identifiers e w1 \<and> ticks w < ticks w1
       \<and> ident = js ''client_'' @ toString36 (dateNow e (ticks w))"
proof -
  from assms(2) have w1: "w1 = w\<lparr>ticks := Suc (ticks w)\<rparr>"
    and id: "ident = js ''client_'' @ toString36 (dateNow e (ticks w))"
    by (auto simp: getClientIdentifier_def Date_now_def)
  have "derived_identifiers e w1"
    unfolding derived_identifiers_def
  proof (intro allI impI)
    fix i
    assume "loginAttempts w1 i \<noteq> None"
    with w1 have "loginAttempts w i \<noteq> None" by simp
    with assms(1) obtain n where "n < ticks w" "i = js ''client_'' @ toString36 (dateNow e n)"
      by (auto simp: derived_identifiers_def)
    with w1 show "\<exists>n<ticks w1. i = js ''client_'' @ toString36 (dateNow e n)"
      by (auto intro: exI [of _ n])
  qed
  with w1 id show ?thesis by simp
qed

lemma isRateLimited_ticks: "ticks w \<le> ticks (snd (isRateLimited e i w))"
  by (auto simp: isRateLimited_def Date_now_def split: option.splits)

lemma derived_calls:
  "derived_identifiers e (w\<lparr>calls := c\<rparr>) = derived_identifiers e w"
  "derived_identifiers e (w\<lparr>currentUser := u\<rparr>) = derived_identifiers e w"
  by (simp_all add: derived_identifiers_def)

lemma derived_authenticateUser:
  assumes "derived_identifiers e w"
  shows "derived_identifiers e (snd (authenticateUser e email password w))"
proof -
  obtain ident w1 where g: "getClientIdentifier e w = (ident, w1)"
    by (cases "getClientIdentifier e w")
  obtain limited w2 where l: "isRateLimited e ident w1 = (limited, w2)"
    by (cases "isRateLimited e ident w1")
  from derived_getClientIdentifier [OF assms g]
  have d1: "derived_identifiers e w1" and t1: "ticks w < ticks w1"
    and id: "ident = js ''client_'' @ toString36 (dateNow e (ticks w))" by simp_all
  from derived_isRateLimited [OF d1, of ident] l have d2: "derived_identifiers e w2" by simp
  from isRateLimited_ticks [of w1 e ident] l t1 have t2: "ticks w < ticks w2" by simp
  have rec: "\<And>s c u. derived_identifiers e
      (recordLoginAttempt e ident s (w2\<lparr>currentUser := u, calls := c\<rparr>))"
    "\<And>s c. derived_identifiers e (recordLoginAttempt e ident s (w2\<lparr>calls := c\<rparr>))"
    using d2 t2 id by (auto intro!: derived_recordLoginAttempt simp: derived_calls)
  show ?thesis
    using g l d2 rec
    by (auto simp: authenticateUser_def signInWithEmailAndPassword_def split: sum.splits)
qed

lemma derived_fresh: "derived_identifiers e fresh_world"
  by (simp add: derived_identifiers_def fresh_world_def)


lemma unseen_identifier_not_limited:
  assumes "derived_identifiers e w"
    and "\<forall>n < ticks w. dateNow e n \<noteq> dateNow e (ticks w)"
    and "getClientIdentifier e w = (ident, w1)"
  shows "isRateLimited e ident w1 = (False, w1)"
proof -
  from assms(3) have id: "ident = js ''client_'' @ toString36 (dateNow e (ticks w))"
    and w1: "loginAttempts w1 = loginAttempts w"
    by (auto simp: getClientIdentifier_def Date_now_def)
  have "loginAttempts w ident = None"
  proof (rule ccontr)
    assume "loginAttempts w ident \<noteq> None"
    with assms(1) obtain n where "n < ticks w"
      and "ident = js ''client_'' @ toString36 (dateNow e n)"
      by (auto simp: derived_identifiers_def)
    with id have "dateNow e n = dateNow e (ticks w)"
      by (simp add: toString36_inj)
    with assms(2) \<open>n < ticks w\<close> show False by blast
  qed
  with w1 show ?thesis
    by (simp add: isRateLimited_def)
qed

lemma later_login_reaches_provider:
  assumes "derived_identifiers e w"
    and "\<forall>n < ticks w. dateNow e n \<noteq> dateNow e (ticks w)"
    and "validateEmail email" and "validatePassword password"
  shows "fst (authenticateUser e email password w) \<noteq> Inl (Error TooManyAttempts)
       \<and> calls (snd (authenticateUser e email password w)) = calls w @ [SignIn email password]"
proof -
  obtain ident w1 where g: "getClientIdentifier e w = (ident, w1)"
    by (cases "getClientIdentifier e w")
  from unseen_identifier_not_limited [OF assms(1) assms(2) g]
  have l: "isRateLimited e ident w1 = (False, w1)" .
  from getClientIdentifier_frame [OF g] have "calls w1 = calls w" by simp
  with g l assms(3) assms(4) show ?thesis
    by (auto simp: authenticateUser_def signInWithEmailAndPassword_def recordLoginAttempt_frame
        split: sum.splits)
qed

lemma toString36_1000: "toString36 1000 = js ''rs''"
  by code_simp

lemma toString36_1001: "toString36 1001 = js ''rt''"
  by code_simp

lemma bob_valid:
  "validateEmail (js ''bob@example.com'')" "validatePassword (js ''guess-1'')"
  by (simp_all add: email_eval validatePassword_def)

lemma bob_rejected_sample:
  "identityProvider sample_env (js ''bob@example.com'') (js ''guess-1'')
     = Inl (FirebaseError (js ''auth/wrong-password''))"
  by (simp add: sample_env_def sample_provider_def js_def)

lemma bob_rejected:
  "identityProvider burst_env (js ''bob@example.com'') (js ''guess-1'')
     = Inl (FirebaseError (js ''auth/wrong-password''))"
  by (simp add: burst_env_def sample_provider_def js_def)

text \<open>
  A login that is not rate limited, with well-formed input and credentials that the
  identity provider rejects as a wrong password.
\<close>

lemma authenticateUser_wrong_password:
  assumes "getClientIdentifier e w = (ident, w1)"
    and "isRateLimited e ident w1 = (False, w2)"
    and "validateEmail email" and "validatePassword password"
    and "identityProvider e email password = Inl (FirebaseError (js ''auth/wrong-password''))"
  shows "authenticateUser e email password w =
           (Inl (Error WrongEmailOrPassword),
            recordLoginAttempt e ident False (w2\<lparr>calls := calls w2 @ [SignIn email password]\<rparr>))"
  using assms by (simp add: authenticateUser_def signInWithEmailAndPassword_def)

lemma burst_first_login:
  "bob_login burst_env fresh_world = (Inl (Error WrongEmailOrPassword), burst_world (Suc 0) 2)"
proof -
  have ident: "getClientIdentifier burst_env fresh_world =
      (js ''client_rs'', fresh_world\<lparr>ticks := 1\<rparr>)"
    by (simp add: getClientIdentifier_def Date_now_def burst_env_def fresh_world_def
        toString36_1000 js_def)
  have free: "isRateLimited burst_env (js ''client_rs'') (fresh_world\<lparr>ticks := 1\<rparr>) =
      (False, fresh_world\<lparr>ticks := 1\<rparr>)"
    by (simp add: isRateLimited_def fresh_world_def)
  show ?thesis
    unfolding bob_login_def authenticateUser_wrong_password [OF ident free bob_valid bob_rejected]
    by (simp add: recordLoginAttempt_failure failureCount_def fresh_world_def burst_world_def
        burst_env_def bob_call_def)
qed

lemma burst_next_login:
  assumes "0 < k" and "k < 5" and "t + 2 < 14"
  shows "bob_login burst_env (burst_world k t) =
           (Inl (Error WrongEmailOrPassword), burst_world (k + 1) (t + 3))"
proof -
  have ident: "getClientIdentifier burst_env (burst_world k t) =
      (js ''client_rs'', burst_world k (Suc t))"
    using assms
    by (simp add: getClientIdentifier_def Date_now_def burst_env_def burst_world_def
        toString36_1000 js_def)
  have free: "isRateLimited burst_env (js ''client_rs'') (burst_world k (Suc t)) =
      (False, burst_world k (t + 2))"
    using assms
    by (simp add: isRateLimited_def Date_now_def burst_world_def burst_env_def
        LOCKOUT_DURATION_def MAX_LOGIN_ATTEMPTS_def)
  show ?thesis
    unfolding bob_login_def authenticateUser_wrong_password [OF ident free bob_valid bob_rejected]
    using assms
    by (simp add: recordLoginAttempt_failure failureCount_def burst_world_def burst_env_def
        bob_call_def replicate_append_same)
qed

lemma after_five_burst: "after_five burst_env = burst_world 5 14"
proof -
  have s2: "bob_login burst_env (burst_world (Suc 0) 2) =
      (Inl (Error WrongEmailOrPassword), burst_world 2 5)"
    using burst_next_login [of "Suc 0" 2] by (simp add: numeral_2_eq_2)
  have s3: "bob_login burst_env (burst_world 2 5) =
      (Inl (Error WrongEmailOrPassword), burst_world 3 8)"
    using burst_next_login [of 2 5] by simp
  have s4: "bob_login burst_env (burst_world 3 8) =
      (Inl (Error WrongEmailOrPassword), burst_world 4 11)"
    using burst_next_login [of 3 8] by simp
  have s5: "bob_login burst_env (burst_world 4 11) =
      (Inl (Error WrongEmailOrPassword), burst_world 5 14)"
    using burst_next_login [of 4 11] by simp
  show ?thesis
    by (simp add: after_five_def burst_first_login s2 s3 s4 s5)
qed

lemma burst_sixth_login:
  "bob_login burst_env (burst_world 5 14) =
     (Inl (Error WrongEmailOrPassword),
      (burst_world 5 16)
        \<lparr>loginAttempts := (loginAttempts (burst_world 5 16))
           (js ''client_rt'' \<mapsto> \<lparr>count = 1, lastAttempt = 1002\<rparr>),
         calls := replicate 6 bob_call\<rparr>)"
proof -
  have ident: "getClientIdentifier burst_env (burst_world 5 14) =
      (js ''client_rt'', burst_world 5 15)"
    by (simp add: getClientIdentifier_def Date_now_def burst_env_def burst_world_def
        toString36_1001 js_def)
  have free: "isRateLimited burst_env (js ''client_rt'') (burst_world 5 15) =
      (False, burst_world 5 15)"
    by (simp add: isRateLimited_def burst_world_def js_def)
  show ?thesis
    unfolding bob_login_def authenticateUser_wrong_password [OF ident free bob_valid bob_rejected]
    by (simp add: recordLoginAttempt_failure failureCount_def burst_world_def burst_env_def
        bob_call_def js_def numeral_eq_Suc)
qed

text \<open>
  With the clock of \<open>sample_env\<close>, which advances at every reading, each login of
  \<open>bob\<close> is given an identifier that has no record yet.
\<close>

lemma sample_login:
  assumes "derived_identifiers sample_env w"
  shows "fst (bob_login sample_env w) = Inl (Error WrongEmailOrPassword)
       \<and> calls (snd (bob_login sample_env w)) = calls w @ [bob_call]
       \<and> derived_identifiers sample_env (snd (bob_login sample_env w))"
proof -
  have adv: "\<forall>n < ticks w. dateNow sample_env n \<noteq> dateNow sample_env (ticks w)"
    by (simp add: sample_env_def)
  obtain ident w1 where g: "getClientIdentifier sample_env w = (ident, w1)"
    by (cases "getClientIdentifier sample_env w")
  from unseen_identifier_not_limited [OF assms adv g]
  have l: "isRateLimited sample_env ident w1 = (False, w1)" .
  from getClientIdentifier_frame [OF g] have c: "calls w1 = calls w" by simp
  from authenticateUser_wrong_password [OF g l bob_valid bob_rejected_sample] c
  have "fst (bob_login sample_env w) = Inl (Error WrongEmailOrPassword)
       \<and> calls (snd (bob_login sample_env w)) = calls w @ [bob_call]"
    by (simp add: bob_login_def bob_call_def recordLoginAttempt_frame)
  with derived_authenticateUser [OF assms] show ?thesis
    by (simp add: bob_login_def)
qed

lemma sample_six:
  "fst (bob_login sample_env (after_five sample_env)) = Inl (Error WrongEmailOrPassword)
   \<and> calls (snd (bob_login sample_env (after_five sample_env))) = replicate 6 bob_call"
proof -
  let ?w1 = "snd (bob_login sample_env fresh_world)"
  let ?w2 = "snd (bob_login sample_env ?w1)"
  let ?w3 = "snd (bob_login sample_env ?w2)"
  let ?w4 = "snd (bob_login sample_env ?w3)"
  let ?w5 = "snd (bob_login sample_env ?w4)"
  have c0: "calls fresh_world = []" by (simp add: fresh_world_def)
  from sample_login [OF derived_fresh] c0
  have s1: "derived_identifiers sample_env ?w1" "calls ?w1 = [bob_call]" by simp_all
  from sample_login [OF s1(1)] s1(2)
  have s2: "derived_identifiers sample_env ?w2" "calls ?w2 = [bob_call, bob_call]" by simp_all
  from sample_login [OF s2(1)] s2(2)
  have s3: "derived_identifiers sample_env ?w3" "calls ?w3 = [bob_call, bob_call, bob_call]"
    by simp_all
  from sample_login [OF s3(1)] s3(2)
  have s4: "derived_identifiers sample_env ?w4"
    "calls ?w4 = [bob_call, bob_call, bob_call, bob_call]" by simp_all
  from sample_login [OF s4(1)] s4(2)
  have s5: "derived_identifiers sample_env ?w5"
    "calls ?w5 = [bob_call, bob_call, bob_call, bob_call, bob_call]" by simp_all
  from sample_login [OF s5(1)] s5(2)
  show ?thesis
    by (simp add: after_five_def numeral_eq_Suc)
qed

text \<open>
  C2 at two concrete runs. In \<open>burst_env\<close> five logins of \<open>bob\<close> fail within the
  millisecond 1000, all under the identifier \<^verbatim>\<open>client_rs\<close>, whose record then counts
  five failures and for which \<open>isRateLimited\<close> answers true; the sixth login, one
  millisecond later, is given the identifier \<^verbatim>\<open>client_rt\<close>, is not rejected by the
  throttle but by the identity provider, which has then been called six times. In
  \<open>sample_env\<close>, where the clock advances at every reading, the sixth login reaches the
  identity provider in the same way.
\<close>

theorem sixth_login_reaches_identity_provider:
  "failureCount (after_five burst_env) (js ''client_rs'') = 5
   \<and> fst (isRateLimited burst_env (js ''client_rs'') (after_five burst_env)) = True
   \<and> fst (getClientIdentifier burst_env (after_five burst_env)) = js ''client_rt''
   \<and> fst (bob_login burst_env (after_five burst_env)) = Inl (Error WrongEmailOrPassword)
   \<and> calls (snd (bob_login burst_env (after_five burst_env))) = replicate 6 bob_call
   \<and> fst (bob_login sample_env (after_five sample_env)) = Inl (Error WrongEmailOrPassword)
   \<and> calls (snd (bob_login sample_env (after_five sample_env))) = replicate 6 bob_call"
proof -
  have "failureCount (after_five burst_env) (js ''client_rs'') = 5
   \<and> fst (isRateLimited burst_env (js ''client_rs'') (after_five burst_env)) = True
   \<and> fst (getClientIdentifier burst_env (after_five burst_env)) = js ''client_rt''
   \<and> fst (bob_login burst_env (after_five burst_env)) = Inl (Error WrongEmailOrPassword)
   \<and> calls (snd (bob_login burst_env (after_five burst_env))) = replicate 6 bob_call"
    unfolding after_five_burst burst_sixth_login
    by (simp add: failureCount_def burst_world_def isRateLimited_def Date_now_def burst_env_def
        LOCKOUT_DURATION_def MAX_LOGIN_ATTEMPTS_def getClientIdentifier_def toString36_1001
        js_def)
  with sample_six show ?thesis by simp
qed

end
